theory Spec2Isabelle
  imports Main
begin

section \<open>The chat widget of src/src/App.js\<close>

text \<open>
  The component \<open>Chatbot\<close> keeps four pieces of React state (\<open>messages\<close>, \<open>input\<close>,
  \<open>sessionId\<close>, \<open>isLoading\<close>) and talks to two things outside itself: the browser's
  \<open>sessionStorage\<close> and the chat endpoint reached through \<open>axios.post\<close>. The embedding
  passes all of it explicitly: the state and the storage live in one record, the answer of
  the endpoint and the value that \<open>uuidv4()\<close> would return are arguments.

  Strings are lists of code units; \<open>char\<close> covers the code units below 256.

  \<open>sendMessage\<close> is an async function: it runs up to its \<open>await\<close> inside the event that
  calls it and the rest when the request has ended. The two parts are separate
  definitions, so that the state in between can be spoken about.

  Each render of the component creates its own \<open>sendMessage\<close>, which sees \<open>input\<close>,
  \<open>isLoading\<close> and \<open>sessionId\<close> as constants holding the values of that render. The
  setters only queue an update, and the constants of a render never change. So a call has
  two states to tell apart: \<open>r\<close>, the state the render it belongs to was made from, which
  the guard of line 26 and the request of lines 34 to 37 read, and \<open>s\<close>, the current
  state, which the setters update. The updater functions passed to \<open>setMessages\<close> read
  the current state at the time they run. Once the component has rendered again, both are
  the same.
  Logging to the console and the scrolling effect of lines 21 to 23 are left out.
\<close>

subsection \<open>Data\<close>

text \<open>A message is \<open>{ role, parts: [{ text }] }\<close> (lines 28 and 48).\<close>

record part =
  part_text :: string

record message =
  role :: string
  parts :: "part list"

text \<open>
  A parsed JSON value, as axios hands over a response body. An object is the list of its
  own properties, each name once. The component never computes with a number, so numbers
  are kept as integers.
\<close>

datatype jsval =
    JUndefined
  | JNull
  | JBool bool
  | JNum int
  | JStr string
  | JArr "jsval list"
  | JObj "(string \<times> jsval) list"

text \<open>The body of the POST of lines 34 to 37.\<close>

record request =
  req_sessionId :: string
  req_message :: string

text \<open>
  \<open>res.data\<close> of a response that fulfils the promise: the fields \<open>sessionId\<close> and
  \<open>history\<close> read at lines 40 and 42.
\<close>

record res_data =
  res_sessionId :: string
  res_history :: "message list"

text \<open>
  How the awaited \<open>axios.post\<close> ends. \<open>Resolved d\<close>: the promise is fulfilled and
  \<open>res.data\<close> is \<open>d\<close>. \<open>Rejected None\<close>: it is rejected and \<open>error.response\<close> is
  undefined (no answer reached the client). \<open>Rejected (Some d)\<close>: it is rejected,
  \<open>error.response\<close> exists and \<open>error.response.data\<close> is \<open>d\<close>.
\<close>

datatype outcome =
    Resolved res_data
  | Rejected "jsval option"

text \<open>How the promise returned by \<open>sendMessage\<close> ends.\<close>

datatype completion =
    Returned
  | Threw_TypeError

text \<open>The four \<open>useState\<close> cells of lines 6 to 17, and \<open>sessionStorage\<close>.\<close>

record chatbot =
  messages :: "message list"
  input :: string
  sessionId :: string
  isLoading :: bool
  storage :: "string \<rightharpoonup> string"

subsection \<open>JavaScript primitives used by the component\<close>

text \<open>
  \<open>String.prototype.trim\<close> strips white space and line terminators from both ends. Among
  the code units below 256 these are 9 to 13, 32 and 160.
\<close>

definition is_space :: "char \<Rightarrow> bool" where
  "is_space c = ((of_char c :: nat) \<in> {9, 10, 11, 12, 13, 32, 160})"

definition trim :: "string \<Rightarrow> string" where
  "trim s = rev (dropWhile is_space (rev (dropWhile is_space s)))"

text \<open>
  \<open>!v\<close> for the result of \<open>sessionStorage.getItem\<close>, which is \<open>null\<close> (here \<open>None\<close>)
  or a string: \<open>null\<close> and the empty string are falsy.
\<close>

definition falsy :: "string option \<Rightarrow> bool" where
  "falsy v = (case v of None \<Rightarrow> True | Some t \<Rightarrow> t = [])"

text \<open>
  \<open>d.sessionId\<close>: reading a property of \<open>undefined\<close> or \<open>null\<close> throws a TypeError; an
  object yields the property, or \<open>undefined\<close> when it has none of that name; no other
  value has a property of that name.
\<close>

fun prop_sessionId :: "jsval \<Rightarrow> completion + jsval" where
  "prop_sessionId JUndefined = Inl Threw_TypeError"
| "prop_sessionId JNull = Inl Threw_TypeError"
| "prop_sessionId (JObj props) =
     (case map_of props ''sessionId'' of None \<Rightarrow> Inr JUndefined | Some v \<Rightarrow> Inr v)"
| "prop_sessionId _ = Inr JUndefined"

subsection \<open>Session initialisation (lines 8 to 16)\<close>

text \<open>
  The initialiser of the \<open>sessionId\<close> cell. \<open>uuid\<close> is what \<open>uuidv4()\<close> returns if it
  is called. The result is the identifier and the storage afterwards.
\<close>

definition initSession :: "string \<Rightarrow> (string \<rightharpoonup> string) \<Rightarrow> string \<times> (string \<rightharpoonup> string)" where
  "initSession uuid store =
     (let storedSessionId = store ''chatSessionId'' in
      if falsy storedSessionId
      then (uuid, store(''chatSessionId'' \<mapsto> uuid))
      else (case storedSessionId of Some t \<Rightarrow> (t, store) | None \<Rightarrow> (uuid, store)))"

text \<open>The state of the component after its first render.\<close>

definition Chatbot :: "string \<Rightarrow> (string \<rightharpoonup> string) \<Rightarrow> chatbot" where
  "Chatbot uuid store =
     (case initSession uuid store of (sid, store') \<Rightarrow>
        \<lparr>messages = [], input = [], sessionId = sid, isLoading = False, storage = store'\<rparr>)"

subsection \<open>sendMessage (lines 25 to 62)\<close>

definition userMessage :: "string \<Rightarrow> message" where
  "userMessage t = \<lparr>role = ''user'', parts = [\<lparr>part_text = t\<rparr>]\<rparr>"

definition errorMessage :: message where
  "errorMessage =
     \<lparr>role = ''model'',
      parts = [\<lparr>part_text = ''I'' @ [CHR 0x27] @ ''m sorry, I couldn'' @ [CHR 0x27]
                 @ ''t process that. Please try again.''\<rparr>]\<rparr>"

text \<open>
  Lines 26 to 37, up to the \<open>await\<close>, for the \<open>sendMessage\<close> of the render made from
  \<open>r\<close>, called when the state is \<open>s\<close>. The guard, the user message and the request
  that goes out read \<open>input\<close>, \<open>isLoading\<close> and \<open>sessionId\<close> of \<open>r\<close>; the three
  setters act on \<open>s\<close>. \<open>None\<close> says that no request is sent.
\<close>

definition sendMessage_begin :: "chatbot \<Rightarrow> chatbot \<Rightarrow> request option \<times> chatbot" where
  "sendMessage_begin r s =
     (if trim (input r) = [] \<or> isLoading r then (None, s)
      else (Some \<lparr>req_sessionId = sessionId r, req_message = input r\<rparr>,
            s\<lparr>messages := messages s @ [userMessage (input r)],
              input := [],
              isLoading := True\<rparr>))"

text \<open>
  Lines 46 to 58, the \<open>catch\<close> block. The error message is appended first; the test of
  line 52 reads \<open>error.response.data.sessionId\<close> only when \<open>error.response\<close> is truthy,
  and that read can throw.
\<close>

definition sendMessage_catch :: "jsval option \<Rightarrow> string \<Rightarrow> chatbot \<Rightarrow> completion \<times> chatbot" where
  "sendMessage_catch response uuid s =
     (let s1 = s\<lparr>messages := messages s @ [errorMessage]\<rparr> in
      case response of
        None \<Rightarrow> (Returned, s1)
      | Some d \<Rightarrow>
          (case prop_sessionId d of
             Inl e \<Rightarrow> (e, s1)
           | Inr v \<Rightarrow>
               if v = JNull
               then (Returned,
                     s1\<lparr>storage := (storage s1)(''chatSessionId'' \<mapsto> uuid),
                        sessionId := uuid,
                        messages := []\<rparr>)
               else (Returned, s1)))"

text \<open>
  Lines 38 to 61, from the end of the \<open>await\<close> on: the rest of the \<open>try\<close> block or the
  \<open>catch\<close> block, then \<open>finally\<close>, which runs however the others ended. Nothing here
  reads a constant of the render, so the current state is the only state involved.
\<close>

definition sendMessage_settle :: "outcome \<Rightarrow> string \<Rightarrow> chatbot \<Rightarrow> completion \<times> chatbot" where
  "sendMessage_settle out uuid s =
     (case (case out of
              Resolved d \<Rightarrow> (Returned, s\<lparr>sessionId := res_sessionId d, messages := res_history d\<rparr>)
            | Rejected response \<Rightarrow> sendMessage_catch response uuid s)
      of (c, s') \<Rightarrow> (c, s'\<lparr>isLoading := False\<rparr>))"

text \<open>
  One whole call of the \<open>sendMessage\<close> of the render made from \<open>r\<close>, from the event that
  starts it in state \<open>s\<close> to the end of its promise, with nothing else happening in
  between: the request sent (if any), how the promise ends, the state.
\<close>

definition sendMessage ::
  "outcome \<Rightarrow> string \<Rightarrow> chatbot \<Rightarrow> chatbot \<Rightarrow> request option \<times> completion \<times> chatbot" where
  "sendMessage out uuid r s =
     (case sendMessage_begin r s of
        (None, s') \<Rightarrow> (None, Returned, s')
      | (Some req, s1) \<Rightarrow>
          (case sendMessage_settle out uuid s1 of (c, s2) \<Rightarrow> (Some req, c, s2)))"

subsection \<open>The events of the widget\<close>

text \<open>
  \<open>onChange\<close> of the text field (line 103), \<open>onKeyPress\<close> (lines 64 to 68) and
  \<open>onClick\<close> of the button (line 109). An event that calls \<open>sendMessage\<close> carries the
  answer of the endpoint and the value of \<open>uuidv4()\<close> for that call. \<open>handleKeyPress\<close>
  belongs to a render as \<open>sendMessage\<close> does, and calls the \<open>sendMessage\<close> of its own
  render. \<open>handle\<close> is an event on a page that shows the current state: the handlers are
  those of a render made from it.
\<close>

datatype event =
    OnChange string
  | OnKeyPress string outcome string
  | OnClick outcome string

definition handleKeyPress ::
  "string \<Rightarrow> outcome \<Rightarrow> string \<Rightarrow> chatbot \<Rightarrow> chatbot \<Rightarrow> chatbot" where
  "handleKeyPress key out uuid r s =
     (if key = ''Enter'' then snd (snd (sendMessage out uuid r s)) else s)"

fun handle :: "event \<Rightarrow> chatbot \<Rightarrow> chatbot" where
  "handle (OnChange v) s = s\<lparr>input := v\<rparr>"
| "handle (OnKeyPress key out uuid) s = handleKeyPress key out uuid s s"
| "handle (OnClick out uuid) s = snd (snd (sendMessage out uuid s s))"

fun run :: "event list \<Rightarrow> chatbot \<Rightarrow> chatbot" where
  "run [] s = s"
| "run (e # es) s = run es (handle e s)"

subsection \<open>What the environment supplies\<close>

text \<open>
  The component takes two kinds of identifier from outside: the one in a successful
  response and the one \<open>uuidv4()\<close> returns. \<open>trusted e\<close> says that those carried by the
  event \<open>e\<close> are not the empty string.
\<close>

fun nonempty_reply :: "outcome \<Rightarrow> bool" where
  "nonempty_reply (Resolved d) = (res_sessionId d \<noteq> [])"
| "nonempty_reply (Rejected response) = True"

fun trusted :: "event \<Rightarrow> bool" where
  "trusted (OnChange v) = True"
| "trusted (OnKeyPress key out uuid) = (nonempty_reply out \<and> uuid \<noteq> [])"
| "trusted (OnClick out uuid) = (nonempty_reply out \<and> uuid \<noteq> [])"

section \<open>Properties\<close>

subsection \<open>The steps of sendMessage\<close>

lemma begin_pass:
  "trim (input r) \<noteq> [] \<Longrightarrow> \<not> isLoading r \<Longrightarrow>
   sendMessage_begin r s =
     (Some \<lparr>req_sessionId = sessionId r, req_message = input r\<rparr>,
      s\<lparr>messages := messages s @ [userMessage (input r)], input := [], isLoading := True\<rparr>)"
  by (simp add: sendMessage_begin_def)

lemma begin_blocked:
  "trim (input r) = [] \<or> isLoading r \<Longrightarrow> sendMessage_begin r s = (None, s)"
  by (simp add: sendMessage_begin_def)

lemma settle_resolved:
  "sendMessage_settle (Resolved d) uuid s =
     (Returned, s\<lparr>sessionId := res_sessionId d, messages := res_history d, isLoading := False\<rparr>)"
  by (simp add: sendMessage_settle_def)

lemma settle_rejected:
  "sendMessage_settle (Rejected response) uuid s =
     (fst (sendMessage_catch response uuid s),
      (snd (sendMessage_catch response uuid s))\<lparr>isLoading := False\<rparr>)"
  by (simp add: sendMessage_settle_def split: prod.splits)

lemma sendMessage_pass:
  "trim (input r) \<noteq> [] \<Longrightarrow> \<not> isLoading r \<Longrightarrow>
   sendMessage out uuid r s =
     (Some \<lparr>req_sessionId = sessionId r, req_message = input r\<rparr>,
      sendMessage_settle out uuid
        (s\<lparr>messages := messages s @ [userMessage (input r)], input := [], isLoading := True\<rparr>))"
  by (simp add: sendMessage_def begin_pass split: prod.splits)

text \<open>The test of line 52 succeeds exactly on an object whose \<open>sessionId\<close> is \<open>null\<close>.\<close>

lemma prop_sessionId_null:
  "prop_sessionId d = Inr JNull \<longleftrightarrow>
     (\<exists>props. d = JObj props \<and> map_of props ''sessionId'' = Some JNull)"
  by (cases d) (auto split: option.splits)

lemma catch_null:
  "map_of props ''sessionId'' = Some JNull \<Longrightarrow>
   sendMessage_catch (Some (JObj props)) uuid s =
     (Returned, s\<lparr>messages := [], sessionId := uuid,
                  storage := (storage s)(''chatSessionId'' \<mapsto> uuid)\<rparr>)"
  by (simp add: sendMessage_catch_def)

lemma catch_no_signal:
  "\<not> (\<exists>props. response = Some (JObj props) \<and> map_of props ''sessionId'' = Some JNull) \<Longrightarrow>
   snd (sendMessage_catch response uuid s) = s\<lparr>messages := messages s @ [errorMessage]\<rparr>"
  by (cases response)
     (auto simp: sendMessage_catch_def Let_def prop_sessionId_null split: sum.splits)

text \<open>
  A body that is \<open>null\<close> makes line 52 throw: the promise of \<open>sendMessage\<close> is rejected,
  after the error message was appended and \<open>finally\<close> has run.
\<close>

lemma settle_body_null_throws:
  "sendMessage_settle (Rejected (Some JNull)) uuid s =
     (Threw_TypeError, s\<lparr>messages := messages s @ [errorMessage], isLoading := False\<rparr>)"
  by (simp add: settle_rejected sendMessage_catch_def)

lemma settle_not_loading: "\<not> isLoading (snd (sendMessage_settle out uuid s))"
  by (cases out) (simp_all add: settle_resolved settle_rejected)

subsection \<open>Successful exchange\<close>

text \<open>
  C1. When the request succeeds, the session identifier becomes the one the server
  returned and the history becomes the history the server returned, whatever the local
  history was: the optimistic user message is not kept beside it. This holds for the
  continuation run in any state, and so for a whole call that passed the guard, whichever
  render it belongs to.
\<close>

theorem sendMessage_success_adopts_server_state:
  "sessionId (snd (sendMessage_settle (Resolved d) uuid s)) = res_sessionId d \<and>
   messages (snd (sendMessage_settle (Resolved d) uuid s)) = res_history d \<and>
   (trim (input r) \<noteq> [] \<and> \<not> isLoading r \<longrightarrow>
      sendMessage (Resolved d) uuid r s =
        (Some \<lparr>req_sessionId = sessionId r, req_message = input r\<rparr>, Returned,
         s\<lparr>messages := res_history d, input := [], sessionId := res_sessionId d,
           isLoading := False\<rparr>))"
  by (simp add: settle_resolved sendMessage_pass)

theorem sendMessage_success_adopts_server_state_witness:
  "trim (input (handle (OnChange ''hi'') (Chatbot ''u1'' Map.empty))) \<noteq> [] \<and>
   \<not> isLoading (handle (OnChange ''hi'') (Chatbot ''u1'' Map.empty)) \<and>
   sendMessage
     (Resolved \<lparr>res_sessionId = ''s1'',
                res_history = [userMessage ''hi'',
                               \<lparr>role = ''model'', parts = [\<lparr>part_text = ''hello''\<rparr>]\<rparr>]\<rparr>)
     ''u2'' (handle (OnChange ''hi'') (Chatbot ''u1'' Map.empty))
     (handle (OnChange ''hi'') (Chatbot ''u1'' Map.empty)) =
     (Some \<lparr>req_sessionId = ''u1'', req_message = ''hi''\<rparr>, Returned,
      \<lparr>messages = [userMessage ''hi'',
                   \<lparr>role = ''model'', parts = [\<lparr>part_text = ''hello''\<rparr>]\<rparr>],
       input = [], sessionId = ''s1'', isLoading = False,
       storage = [''chatSessionId'' \<mapsto> ''u1'']\<rparr>)"
  using sendMessage_success_adopts_server_state
    [of "\<lparr>res_sessionId = ''s1'',
          res_history = [userMessage ''hi'',
                         \<lparr>role = ''model'', parts = [\<lparr>part_text = ''hello''\<rparr>]\<rparr>]\<rparr>"
        "''u2''" "handle (OnChange ''hi'') (Chatbot ''u1'' Map.empty)"
        "handle (OnChange ''hi'') (Chatbot ''u1'' Map.empty)"]
  by (simp add: trim_def is_space_def Chatbot_def initSession_def falsy_def)

subsection \<open>Failure that invalidates the session\<close>

text \<open>
  C2, as the code has it. Lines 53 to 55 take whatever \<open>uuidv4()\<close> returns and never
  compare it with the identifier in use. Should the two be equal, the session identifier
  after the invalidation is the one before it: the claim that it differs fails there.
\<close>

theorem invalidation_with_equal_uuid_keeps_identifier:
  "sessionId (handle (OnChange ''hi'') (Chatbot ''u1'' Map.empty)) = ''u1'' \<and>
   map_of [(''sessionId'', JNull)] ''sessionId'' = Some JNull \<and>
   sessionId (snd (snd (sendMessage (Rejected (Some (JObj [(''sessionId'', JNull)]))) ''u1''
     (handle (OnChange ''hi'') (Chatbot ''u1'' Map.empty))
     (handle (OnChange ''hi'') (Chatbot ''u1'' Map.empty))))) = ''u1''"
  by (simp add: sendMessage_pass settle_rejected catch_null trim_def is_space_def Chatbot_def
        initSession_def falsy_def)

text \<open>
  C2, amended. When the request fails with an error body whose \<open>sessionId\<close> field is
  \<open>null\<close>, the client takes the identifier \<open>uuidv4()\<close> returns as its session
  identifier, stores it under \<open>chatSessionId\<close> and empties the history. The new
  identifier differs from the previous one exactly when the value \<open>uuidv4()\<close> returned
  does.
\<close>

theorem sendMessage_invalidation_rotates_session:
  assumes "map_of props ''sessionId'' = Some JNull"
  shows "sendMessage_settle (Rejected (Some (JObj props))) uuid s =
           (Returned, s\<lparr>messages := [], sessionId := uuid,
                        storage := (storage s)(''chatSessionId'' \<mapsto> uuid),
                        isLoading := False\<rparr>) \<and>
         sessionId (snd (sendMessage_settle (Rejected (Some (JObj props))) uuid s)) = uuid \<and>
         (sessionId (snd (sendMessage_settle (Rejected (Some (JObj props))) uuid s)) \<noteq> sessionId s
            \<longleftrightarrow> uuid \<noteq> sessionId s) \<and>
         storage (snd (sendMessage_settle (Rejected (Some (JObj props))) uuid s)) ''chatSessionId''
           = Some uuid \<and>
         messages (snd (sendMessage_settle (Rejected (Some (JObj props))) uuid s)) = []"
  using assms by (simp add: settle_rejected catch_null)

theorem sendMessage_invalidation_rotates_session_witness:
  "map_of [(''error'', JStr ''expired''), (''sessionId'', JNull)] ''sessionId'' = Some JNull \<and>
   snd (snd (sendMessage
     (Rejected (Some (JObj [(''error'', JStr ''expired''), (''sessionId'', JNull)]))) ''u2''
     (handle (OnChange ''hi'') (Chatbot ''u1'' Map.empty))
     (handle (OnChange ''hi'') (Chatbot ''u1'' Map.empty)))) =
     \<lparr>messages = [], input = [], sessionId = ''u2'', isLoading = False,
      storage = [''chatSessionId'' \<mapsto> ''u2'']\<rparr> \<and>
   ''u2'' \<noteq> sessionId (handle (OnChange ''hi'') (Chatbot ''u1'' Map.empty))"
  using sendMessage_invalidation_rotates_session
    [of "[(''error'', JStr ''expired''), (''sessionId'', JNull)]" "''u2''"
        "(handle (OnChange ''hi'') (Chatbot ''u1'' Map.empty))
           \<lparr>messages := [userMessage ''hi''], input := [], isLoading := True\<rparr>"]
  by (simp add: sendMessage_pass trim_def is_space_def Chatbot_def initSession_def falsy_def)

subsection \<open>Failure that does not invalidate the session\<close>

text \<open>
  C4. When a call that passed the guard fails and the error carries no invalidation
  signal (no response at all, or a body that is not an object whose \<open>sessionId\<close> is
  \<open>null\<close>), the session identifier and the storage are as before, and the history is the
  history before the call, then the user message, then the one error message of the
  client.
\<close>

theorem sendMessage_plain_failure_keeps_session:
  assumes "trim (input r) \<noteq> []" and "\<not> isLoading r"
    and "\<not> (\<exists>props. response = Some (JObj props) \<and> map_of props ''sessionId'' = Some JNull)"
  shows "sessionId (snd (snd (sendMessage (Rejected response) uuid r s))) = sessionId s \<and>
         storage (snd (snd (sendMessage (Rejected response) uuid r s))) = storage s \<and>
         messages (snd (snd (sendMessage (Rejected response) uuid r s))) =
           messages s @ [userMessage (input r)] @ [errorMessage] \<and>
         role errorMessage = ''model''"
  using assms
  by (simp add: sendMessage_pass settle_rejected catch_no_signal errorMessage_def)

theorem sendMessage_plain_failure_keeps_session_witness:
  "trim (input (handle (OnChange ''hi'') (Chatbot ''u1'' Map.empty))) \<noteq> [] \<and>
   \<not> isLoading (handle (OnChange ''hi'') (Chatbot ''u1'' Map.empty)) \<and>
   \<not> (\<exists>props. Some (JObj [(''error'', JStr ''Internal Server Error'')]) = Some (JObj props) \<and>
         map_of props ''sessionId'' = Some JNull) \<and>
   sessionId (snd (snd (sendMessage
     (Rejected (Some (JObj [(''error'', JStr ''Internal Server Error'')]))) ''u2''
     (handle (OnChange ''hi'') (Chatbot ''u1'' Map.empty))
     (handle (OnChange ''hi'') (Chatbot ''u1'' Map.empty))))) = ''u1'' \<and>
   storage (snd (snd (sendMessage
     (Rejected (Some (JObj [(''error'', JStr ''Internal Server Error'')]))) ''u2''
     (handle (OnChange ''hi'') (Chatbot ''u1'' Map.empty))
     (handle (OnChange ''hi'') (Chatbot ''u1'' Map.empty))))) = [''chatSessionId'' \<mapsto> ''u1''] \<and>
   messages (snd (snd (sendMessage
     (Rejected (Some (JObj [(''error'', JStr ''Internal Server Error'')]))) ''u2''
     (handle (OnChange ''hi'') (Chatbot ''u1'' Map.empty))
     (handle (OnChange ''hi'') (Chatbot ''u1'' Map.empty))))) = [userMessage ''hi'', errorMessage]"
  using sendMessage_plain_failure_keeps_session
    [of "handle (OnChange ''hi'') (Chatbot ''u1'' Map.empty)"
        "Some (JObj [(''error'', JStr ''Internal Server Error'')])" "''u2''"
        "handle (OnChange ''hi'') (Chatbot ''u1'' Map.empty)"]
  by (simp add: trim_def is_space_def Chatbot_def initSession_def falsy_def)

subsection \<open>The loading flag\<close>




text \<open>
  C6. A call that passes the guard sends a request, and when it completes the loading flag
  is off, however the request ended: fulfilled, rejected with or without a response, or
  with line 52 throwing.
\<close>

theorem sendMessage_completes_not_loading:
  assumes "trim (input r) \<noteq> []" and "\<not> isLoading r"
  shows "fst (sendMessage out uuid r s) =
           Some \<lparr>req_sessionId = sessionId r, req_message = input r\<rparr> \<and>
         \<not> isLoading (snd (snd (sendMessage out uuid r s)))"
  using assms by (simp add: sendMessage_pass settle_not_loading)

theorem sendMessage_completes_not_loading_witness:
  "trim (input (handle (OnChange ''hi'') (Chatbot ''u1'' Map.empty))) \<noteq> [] \<and>
   \<not> isLoading (handle (OnChange ''hi'') (Chatbot ''u1'' Map.empty)) \<and>
   sendMessage (Rejected (Some JNull)) ''u2''
     (handle (OnChange ''hi'') (Chatbot ''u1'' Map.empty))
     (handle (OnChange ''hi'') (Chatbot ''u1'' Map.empty)) =
     (Some \<lparr>req_sessionId = ''u1'', req_message = ''hi''\<rparr>, Threw_TypeError,
      \<lparr>messages = [userMessage ''hi'', errorMessage], input = [], sessionId = ''u1'',
       isLoading = False, storage = [''chatSessionId'' \<mapsto> ''u1'']\<rparr>)"
  using sendMessage_completes_not_loading
    [of "handle (OnChange ''hi'') (Chatbot ''u1'' Map.empty)" "Rejected (Some JNull)" "''u2''"
        "handle (OnChange ''hi'') (Chatbot ''u1'' Map.empty)"]
  by (simp add: sendMessage_pass settle_body_null_throws trim_def is_space_def Chatbot_def
        initSession_def falsy_def)

subsection \<open>The optimistic update\<close>

text \<open>
  C7. For an input that is not empty after trimming, and with no request in flight (the
  precondition of \<open>sendMessage\<close>, as the render of the call sees it), the part of the
  call that runs before the request resolves appends one message of role \<open>user\<close> holding
  the input as typed, sets the loading flag and clears the input; the request carries the
  input and the session identifier of that render.
\<close>

theorem sendMessage_optimistic_update:
  assumes "trim (input r) \<noteq> []" and "\<not> isLoading r"
  shows "sendMessage_begin r s =
           (Some \<lparr>req_sessionId = sessionId r, req_message = input r\<rparr>,
            s\<lparr>messages := messages s @ [userMessage (input r)], input := [],
              isLoading := True\<rparr>) \<and>
         length (messages (snd (sendMessage_begin r s))) = Suc (length (messages s)) \<and>
         role (userMessage (input r)) = ''user'' \<and>
         parts (userMessage (input r)) = [\<lparr>part_text = input r\<rparr>] \<and>
         isLoading (snd (sendMessage_begin r s)) \<and>
         input (snd (sendMessage_begin r s)) = []"
  using assms by (simp add: begin_pass userMessage_def)

theorem sendMessage_optimistic_update_witness:
  "trim (input (handle (OnChange '' hi '') (Chatbot ''u1'' Map.empty))) \<noteq> [] \<and>
   \<not> isLoading (handle (OnChange '' hi '') (Chatbot ''u1'' Map.empty)) \<and>
   sendMessage_begin (handle (OnChange '' hi '') (Chatbot ''u1'' Map.empty))
     (handle (OnChange '' hi '') (Chatbot ''u1'' Map.empty)) =
     (Some \<lparr>req_sessionId = ''u1'', req_message = '' hi ''\<rparr>,
      \<lparr>messages = [\<lparr>role = ''user'', parts = [\<lparr>part_text = '' hi ''\<rparr>]\<rparr>], input = [],
       sessionId = ''u1'', isLoading = True, storage = [''chatSessionId'' \<mapsto> ''u1'']\<rparr>)"
  using sendMessage_optimistic_update
    [of "handle (OnChange '' hi '') (Chatbot ''u1'' Map.empty)"
        "handle (OnChange '' hi '') (Chatbot ''u1'' Map.empty)"]
  by (simp add: userMessage_def trim_def is_space_def Chatbot_def initSession_def falsy_def)

subsection \<open>Storage\<close>

lemma initSession_absent:
  "store ''chatSessionId'' = None \<Longrightarrow>
   initSession uuid store = (uuid, store(''chatSessionId'' \<mapsto> uuid))"
  by (simp add: initSession_def falsy_def)

lemma initSession_stores_result:
  "uuid \<noteq> [] \<Longrightarrow> initSession uuid store = (sid, store') \<Longrightarrow>
   store' ''chatSessionId'' = Some sid \<and> sid \<noteq> []"
  by (auto simp: initSession_def falsy_def Let_def split: option.splits if_splits)

text \<open>
  C3. The initialiser and the invalidation branch both write the identifier they create
  to \<open>chatSessionId\<close> (\<open>initSession_absent\<close>, \<open>catch_null\<close>). The success path does not:
  line 40 sets the state cell only. Here the storage is empty at load, \<open>uuidv4()\<close> gives
  \<open>u1\<close>, the user sends \<open>hi\<close> and the server answers with the identifier \<open>s1\<close>:
  afterwards the session identifier is \<open>s1\<close> and the storage still holds \<open>u1\<close>, so a
  reload of the page would resume with \<open>u1\<close>.
\<close>

theorem success_rotation_leaves_storage_stale:
  "sessionId (run [OnChange ''hi'',
                   OnClick (Resolved \<lparr>res_sessionId = ''s1'', res_history = []\<rparr>) ''u2'']
               (Chatbot ''u1'' Map.empty)) = ''s1'' \<and>
   storage (run [OnChange ''hi'',
                 OnClick (Resolved \<lparr>res_sessionId = ''s1'', res_history = []\<rparr>) ''u2'']
             (Chatbot ''u1'' Map.empty)) ''chatSessionId'' = Some ''u1'' \<and>
   fst (initSession ''u3''
          (storage (run [OnChange ''hi'',
                         OnClick (Resolved \<lparr>res_sessionId = ''s1'', res_history = []\<rparr>) ''u2'']
                     (Chatbot ''u1'' Map.empty)))) = ''u1''"
  by (simp add: sendMessage_def sendMessage_begin_def settle_resolved trim_def is_space_def
        Chatbot_def initSession_def falsy_def)

subsection \<open>The session identifier is not empty\<close>

lemma catch_sessionId:
  "sessionId (snd (sendMessage_catch response uuid s)) = sessionId s \<or>
   sessionId (snd (sendMessage_catch response uuid s)) = uuid"
  by (auto simp: sendMessage_catch_def Let_def split: option.splits sum.splits)

lemma settle_nonempty:
  assumes "sessionId s \<noteq> []" and "uuid \<noteq> []" and "nonempty_reply out"
  shows "sessionId (snd (sendMessage_settle out uuid s)) \<noteq> []"
proof (cases out)
  case (Resolved d)
  with assms show ?thesis by (simp add: settle_resolved)
next
  case (Rejected r)
  with assms catch_sessionId [of r uuid s] show ?thesis
    by (auto simp: settle_rejected)
qed

lemma sendMessage_nonempty:
  assumes "sessionId s \<noteq> []" and "uuid \<noteq> []" and "nonempty_reply out"
  shows "sessionId (snd (snd (sendMessage out uuid r s))) \<noteq> []"
proof (cases "trim (input r) \<noteq> [] \<and> \<not> isLoading r")
  case True
  let ?s1 = "s\<lparr>messages := messages s @ [userMessage (input r)], input := [],
               isLoading := True\<rparr>"
  from assms have "sessionId (snd (sendMessage_settle out uuid ?s1)) \<noteq> []"
    by (intro settle_nonempty) simp_all
  with True show ?thesis by (simp add: sendMessage_pass)
next
  case False
  then have "sendMessage out uuid r s = (None, Returned, s)"
    by (auto simp: sendMessage_def begin_blocked)
  with assms(1) show ?thesis by simp
qed

lemma handle_nonempty:
  "trusted e \<Longrightarrow> sessionId s \<noteq> [] \<Longrightarrow> sessionId (handle e s) \<noteq> []"
  by (cases e) (simp_all add: handleKeyPress_def sendMessage_nonempty)

lemma run_nonempty:
  "\<forall>e \<in> set es. trusted e \<Longrightarrow> sessionId s \<noteq> [] \<Longrightarrow> sessionId (run es s) \<noteq> []"
  by (induction es arbitrary: s) (simp_all add: handle_nonempty)

lemma init_nonempty: "uuid \<noteq> [] \<Longrightarrow> sessionId (Chatbot uuid store) \<noteq> []"
  by (auto simp: Chatbot_def initSession_def falsy_def Let_def split: option.splits)

text \<open>
  C8, as the code has it. The identifier is not empty after initialisation, since the
  initialiser treats an empty stored value as absent. A successful exchange adopts the
  identifier of the response unchecked, so an empty one in the response becomes the
  session identifier: the claim fails there.
\<close>

theorem empty_server_id_is_adopted:
  "sessionId (Chatbot ''u1'' Map.empty) \<noteq> [] \<and>
   sessionId (run [OnChange ''hi'',
                   OnClick (Resolved \<lparr>res_sessionId = [], res_history = []\<rparr>) ''u2'']
               (Chatbot ''u1'' Map.empty)) = []"
  by (simp add: sendMessage_def sendMessage_begin_def settle_resolved trim_def is_space_def
        Chatbot_def initSession_def falsy_def)

text \<open>
  C8, amended. As long as every identifier the environment hands over is not empty (the
  one of each successful response, and the ones \<open>uuidv4()\<close> returns), the session
  identifier is not empty after initialisation nor after any sequence of events.
\<close>

theorem sessionId_nonempty_when_environment_is:
  assumes "uuid \<noteq> []" and "\<forall>e \<in> set es. trusted e"
  shows "sessionId (run es (Chatbot uuid store)) \<noteq> []"
  using assms by (simp add: run_nonempty init_nonempty)

theorem sessionId_nonempty_when_environment_is_witness:
  "''u1'' \<noteq> [] \<and>
   list_all trusted
     [OnChange ''hi'',
      OnKeyPress ''Enter'' (Resolved \<lparr>res_sessionId = ''s1'', res_history = []\<rparr>) ''u2'',
      OnChange ''more'',
      OnClick (Rejected (Some (JObj [(''sessionId'', JNull)]))) ''u3''] \<and>
   sessionId (run [OnChange ''hi'',
               OnKeyPress ''Enter'' (Resolved \<lparr>res_sessionId = ''s1'', res_history = []\<rparr>) ''u2'',
               OnChange ''more'',
               OnClick (Rejected (Some (JObj [(''sessionId'', JNull)]))) ''u3'']
             (Chatbot ''u1'' [''chatSessionId'' \<mapsto> ''''])) \<noteq> []"
  using sessionId_nonempty_when_environment_is
    [of "''u1''" "[OnChange ''hi'',
               OnKeyPress ''Enter'' (Resolved \<lparr>res_sessionId = ''s1'', res_history = []\<rparr>) ''u2'',
               OnChange ''more'',
               OnClick (Rejected (Some (JObj [(''sessionId'', JNull)]))) ''u3'']"
        "[''chatSessionId'' \<mapsto> '''']"]
  by simp

subsection \<open>Initialising twice\<close>

text \<open>
  C9. Whatever the storage holds, a second initialisation on the storage the first one
  left behind returns the identifier the first one returned and leaves the storage as it
  is, even though \<open>uuidv4()\<close> would now return something else. When the key is absent at
  first, the identifier is the generated one and it is stored under \<open>chatSessionId\<close>.
  The generated identifier must not be the empty string, which no UUID is.
\<close>

theorem initSession_idempotent:
  assumes "uuid1 \<noteq> []" and "initSession uuid1 store = (id1, store1)"
  shows "initSession uuid2 store1 = (id1, store1) \<and>
         (store ''chatSessionId'' = None \<longrightarrow>
            id1 = uuid1 \<and> store1 = store(''chatSessionId'' \<mapsto> uuid1))"
  using assms
  by (auto simp: initSession_def falsy_def Let_def split: option.splits if_splits)

theorem initSession_idempotent_witness:
  "''u1'' \<noteq> [] \<and>
   initSession ''u1'' Map.empty = (''u1'', [''chatSessionId'' \<mapsto> ''u1'']) \<and>
   Map.empty ''chatSessionId'' = (None :: string option) \<and>
   initSession ''u2'' [''chatSessionId'' \<mapsto> ''u1''] = (''u1'', [''chatSessionId'' \<mapsto> ''u1''])"
  using initSession_idempotent
    [of "''u1''" Map.empty "''u1''" "[''chatSessionId'' \<mapsto> ''u1'']" "''u2''"]
  by (simp add: initSession_absent)

subsection \<open>What counts as invalidation\<close>

text \<open>
  C10. The test of line 52 is \<open>=== null\<close>. When the request fails with no response, or
  with a body that is an object without a \<open>sessionId\<close> property (the property reads as
  \<open>undefined\<close>), the call returns with nothing changed but the appended error message
  and the loading flag. And whenever a failed request changes the session identifier or
  the storage, the body was an object whose \<open>sessionId\<close> is \<open>null\<close>.
\<close>

theorem rotation_only_on_null_sessionId:
  "(response = None \<or>
    (\<exists>props. response = Some (JObj props) \<and> map_of props ''sessionId'' = None)
      \<longrightarrow> sendMessage_settle (Rejected response) uuid s =
            (Returned, s\<lparr>messages := messages s @ [errorMessage], isLoading := False\<rparr>)) \<and>
   (sessionId (snd (sendMessage_settle (Rejected response) uuid s)) \<noteq> sessionId s \<or>
    storage (snd (sendMessage_settle (Rejected response) uuid s)) \<noteq> storage s
      \<longrightarrow> (\<exists>props. response = Some (JObj props) \<and> map_of props ''sessionId'' = Some JNull))"
proof (intro conjI impI)
  assume "response = None \<or>
    (\<exists>props. response = Some (JObj props) \<and> map_of props ''sessionId'' = None)"
  then show "sendMessage_settle (Rejected response) uuid s =
      (Returned, s\<lparr>messages := messages s @ [errorMessage], isLoading := False\<rparr>)"
    by (auto simp: settle_rejected sendMessage_catch_def)
next
  assume changed: "sessionId (snd (sendMessage_settle (Rejected response) uuid s)) \<noteq> sessionId s \<or>
    storage (snd (sendMessage_settle (Rejected response) uuid s)) \<noteq> storage s"
  show "\<exists>props. response = Some (JObj props) \<and> map_of props ''sessionId'' = Some JNull"
  proof (rule ccontr)
    assume "\<not> (\<exists>props. response = Some (JObj props) \<and> map_of props ''sessionId'' = Some JNull)"
    then have "snd (sendMessage_settle (Rejected response) uuid s) =
        s\<lparr>messages := messages s @ [errorMessage], isLoading := False\<rparr>"
      by (simp add: settle_rejected catch_no_signal)
    with changed show False by simp
  qed
qed

theorem rotation_only_on_null_sessionId_witness:
  "sendMessage_settle (Rejected None) ''u2''
     \<lparr>messages = [userMessage ''hi''], input = [], sessionId = ''u1'', isLoading = True,
      storage = [''chatSessionId'' \<mapsto> ''u1'']\<rparr> =
     (Returned,
      \<lparr>messages = [userMessage ''hi'', errorMessage], input = [], sessionId = ''u1'',
       isLoading = False, storage = [''chatSessionId'' \<mapsto> ''u1'']\<rparr>) \<and>
   map_of [(''error'', JStr ''bad gateway'')] ''sessionId'' = None \<and>
   sendMessage_settle (Rejected (Some (JObj [(''error'', JStr ''bad gateway'')]))) ''u2''
     \<lparr>messages = [userMessage ''hi''], input = [], sessionId = ''u1'', isLoading = True,
      storage = [''chatSessionId'' \<mapsto> ''u1'']\<rparr> =
     (Returned,
      \<lparr>messages = [userMessage ''hi'', errorMessage], input = [], sessionId = ''u1'',
       isLoading = False, storage = [''chatSessionId'' \<mapsto> ''u1'']\<rparr>) \<and>
   sessionId (snd (sendMessage_settle (Rejected (Some (JObj [(''sessionId'', JNull)]))) ''u2''
     \<lparr>messages = [userMessage ''hi''], input = [], sessionId = ''u1'', isLoading = True,
      storage = [''chatSessionId'' \<mapsto> ''u1'']\<rparr>)) \<noteq> ''u1'' \<and>
   (\<exists>props. Some (JObj [(''sessionId'', JNull)]) = Some (JObj props) \<and>
      map_of props ''sessionId'' = Some JNull)"
  using
    rotation_only_on_null_sessionId
      [of None "''u2''"
          "\<lparr>messages = [userMessage ''hi''], input = [], sessionId = ''u1'', isLoading = True,
            storage = [''chatSessionId'' \<mapsto> ''u1'']\<rparr>"]
    rotation_only_on_null_sessionId
      [of "Some (JObj [(''error'', JStr ''bad gateway'')])" "''u2''"
          "\<lparr>messages = [userMessage ''hi''], input = [], sessionId = ''u1'', isLoading = True,
            storage = [''chatSessionId'' \<mapsto> ''u1'']\<rparr>"]
    rotation_only_on_null_sessionId
      [of "Some (JObj [(''sessionId'', JNull)])" "''u2''"
          "\<lparr>messages = [userMessage ''hi''], input = [], sessionId = ''u1'', isLoading = True,
            storage = [''chatSessionId'' \<mapsto> ''u1'']\<rparr>"]
  by (simp add: settle_rejected sendMessage_catch_def)

end
